theory Spec2Isabelle
  imports Complex_Main
begin

section \<open>Python floats\<close>

text \<open>
  The drive code computes on Python floats (IEEE 754 binary64). The functions of
  \<^verbatim>\<open>drive.py\<close> are embedded below for any number type \<open>'f\<close> that merely has
  the operations the code uses (\<open>0\<close>, \<open>1\<close>, \<open>+\<close>, \<open>-\<close>, \<open>*\<close>, \<open>abs\<close>, \<open><\<close>);
  no law of arithmetic or of the order is assumed of them. A theorem stated for every
  such \<open>'f\<close> therefore does not depend on how sums and products round.

  \<open>pyfloat\<close> is the carrier used where a claim speaks of the order of floats: the
  finite values, the two infinities and NaN, with the comparisons of IEEE 754 (every
  comparison with NaN is false). Finite values are carried as reals: the rounding and
  the overflow of finite sums and products are not modelled.
\<close>

datatype pyfloat = Finite real | PosInf | NegInf | NaN

instantiation pyfloat :: "{zero,one,plus,minus,uminus,times,abs,ord}"
begin

definition zero_pyfloat :: pyfloat where
  "zero_pyfloat = Finite 0"

definition one_pyfloat :: pyfloat where
  "one_pyfloat = Finite 1"

fun uminus_pyfloat :: "pyfloat \<Rightarrow> pyfloat" where
  "uminus_pyfloat (Finite a) = Finite (- a)"
| "uminus_pyfloat PosInf = NegInf"
| "uminus_pyfloat NegInf = PosInf"
| "uminus_pyfloat NaN = NaN"

fun abs_pyfloat :: "pyfloat \<Rightarrow> pyfloat" where
  "abs_pyfloat (Finite a) = Finite \<bar>a\<bar>"
| "abs_pyfloat PosInf = PosInf"
| "abs_pyfloat NegInf = PosInf"
| "abs_pyfloat NaN = NaN"

fun plus_pyfloat :: "pyfloat \<Rightarrow> pyfloat \<Rightarrow> pyfloat" where
  "plus_pyfloat NaN b = NaN"
| "plus_pyfloat a NaN = NaN"
| "plus_pyfloat (Finite a) (Finite b) = Finite (a + b)"
| "plus_pyfloat PosInf NegInf = NaN"
| "plus_pyfloat NegInf PosInf = NaN"
| "plus_pyfloat PosInf b = PosInf"
| "plus_pyfloat NegInf b = NegInf"
| "plus_pyfloat (Finite a) b = b"

definition minus_pyfloat :: "pyfloat \<Rightarrow> pyfloat \<Rightarrow> pyfloat" where
  "minus_pyfloat a b = a + (- b)"

fun times_pyfloat :: "pyfloat \<Rightarrow> pyfloat \<Rightarrow> pyfloat" where
  "times_pyfloat NaN b = NaN"
| "times_pyfloat a NaN = NaN"
| "times_pyfloat (Finite a) (Finite b) = Finite (a * b)"
| "times_pyfloat (Finite a) PosInf = (if a = 0 then NaN else if 0 < a then PosInf else NegInf)"
| "times_pyfloat (Finite a) NegInf = (if a = 0 then NaN else if 0 < a then NegInf else PosInf)"
| "times_pyfloat PosInf (Finite b) = (if b = 0 then NaN else if 0 < b then PosInf else NegInf)"
| "times_pyfloat NegInf (Finite b) = (if b = 0 then NaN else if 0 < b then NegInf else PosInf)"
| "times_pyfloat PosInf PosInf = PosInf"
| "times_pyfloat PosInf NegInf = NegInf"
| "times_pyfloat NegInf PosInf = NegInf"
| "times_pyfloat NegInf NegInf = PosInf"

fun less_pyfloat :: "pyfloat \<Rightarrow> pyfloat \<Rightarrow> bool" where
  "less_pyfloat (Finite a) (Finite b) = (a < b)"
| "less_pyfloat (Finite a) PosInf = True"
| "less_pyfloat NegInf (Finite b) = True"
| "less_pyfloat NegInf PosInf = True"
| "less_pyfloat a b = False"

fun less_eq_pyfloat :: "pyfloat \<Rightarrow> pyfloat \<Rightarrow> bool" where
  "less_eq_pyfloat (Finite a) (Finite b) = (a \<le> b)"
| "less_eq_pyfloat (Finite a) PosInf = True"
| "less_eq_pyfloat NegInf (Finite b) = True"
| "less_eq_pyfloat NegInf PosInf = True"
| "less_eq_pyfloat PosInf PosInf = True"
| "less_eq_pyfloat NegInf NegInf = True"
| "less_eq_pyfloat a b = False"

instance ..

end

section \<open>Deadband and clamp\<close>

text \<open>
  Python's two-argument \<open>min(a, b)\<close> and \<open>max(a, b)\<close> keep the first argument unless
  the second compares strictly smaller (strictly greater) than it.
\<close>

definition py_min :: "'f::ord \<Rightarrow> 'f \<Rightarrow> 'f" where
  "py_min a b = (if b < a then b else a)"

definition py_max :: "'f::ord \<Rightarrow> 'f \<Rightarrow> 'f" where
  "py_max a b = (if b > a then b else a)"

text \<open>\<^verbatim>\<open>Drive._apply_deadband\<close>\<close>

definition apply_deadband :: "'f::{zero,abs,ord} \<Rightarrow> 'f \<Rightarrow> 'f" where
  "apply_deadband value deadband = (if \<bar>value\<bar> < deadband then 0 else value)"

text \<open>\<^verbatim>\<open>Drive._clamp\<close>\<close>

definition clamp :: "'f::{one,uminus,ord} \<Rightarrow> 'f" where
  "clamp value = py_max (- 1) (py_min 1 value)"

section \<open>Exceptions and effects\<close>

text \<open>
  The exception classes the code tells apart, each with its message.
  \<open>OtherException\<close> is any other subclass of \<^verbatim>\<open>Exception\<close>; \<open>NonException\<close> is
  a \<^verbatim>\<open>BaseException\<close> outside \<^verbatim>\<open>Exception\<close> (\<^verbatim>\<open>KeyboardInterrupt\<close>,
  \<^verbatim>\<open>SystemExit\<close>), which \<^verbatim>\<open>except Exception\<close> does not catch.
\<close>

datatype py_exception =
    RuntimeError string
  | ModuleNotFoundError string
  | TypeError string
  | OtherException string
  | NonException string

fun str_of :: "py_exception \<Rightarrow> string" where
  "str_of (RuntimeError m) = m"
| "str_of (ModuleNotFoundError m) = m"
| "str_of (TypeError m) = m"
| "str_of (OtherException m) = m"
| "str_of (NonException m) = m"

fun is_ModuleNotFoundError :: "py_exception \<Rightarrow> bool" where
  "is_ModuleNotFoundError (ModuleNotFoundError m) = True"
| "is_ModuleNotFoundError e = False"

fun is_TypeError :: "py_exception \<Rightarrow> bool" where
  "is_TypeError (TypeError m) = True"
| "is_TypeError e = False"

fun is_Exception :: "py_exception \<Rightarrow> bool" where
  "is_Exception (NonException m) = False"
| "is_Exception e = True"

text \<open>A motor handle: \<^verbatim>\<open>TalonFX(device_id, canbus)\<close>.\<close>

record talonfx =
  device_id :: int
  canbus :: string

text \<open>
  What a call does to the world outside the \<open>Drive\<close> object, in the order it happens.
  Every function below returns the list of its effects together with its result
  (\<open>Inl\<close> an exception raised to the caller, \<open>Inr\<close> the value returned).
  \<^item> \<open>TalonFX_created i b\<close>: \<^verbatim>\<open>TalonFX(i, b)\<close> opened a motor handle;
  \<^item> \<open>Set_control m v\<close>: \<^verbatim>\<open>m.set_control(DutyCycleOut(v))\<close>;
  \<^item> \<open>Report_warning s\<close>: \<^verbatim>\<open>wpilib.DriverStation.reportWarning(s, False)\<close>;
  \<^item> \<open>Tuner_constructed mod cls\<close>: the class \<open>cls\<close> of module \<open>mod\<close> was called;
  \<^item> \<open>Tuner_drive_called x y r f\<close>: the override's \<^verbatim>\<open>drive(x, y, r, f)\<close> was called;
  \<^item> \<open>Tuner_get_autonomous_command_called\<close>: the override's getter was called;
  \<^item> \<open>Autonomous_factory_called with_self\<close>: the factory was called, with no
    argument or with the \<open>Drive\<close> object.
\<close>

datatype 'f event =
    TalonFX_created int string
  | Set_control talonfx 'f
  | Report_warning string
  | Tuner_constructed string string
  | Tuner_drive_called 'f 'f 'f bool
  | Tuner_get_autonomous_command_called
  | Autonomous_factory_called bool

section \<open>Commands and the optional override\<close>

text \<open>
  A command object. \<^verbatim>\<open>InstantCommand(toRun)\<close> of commands2 holds a callable and calls
  it once when the command runs; the callable is carried as the effects of calling it.
  \<open>External_command\<close> is a command object that came from generated code.
\<close>

datatype 'f command =
    InstantCommand "unit \<Rightarrow> 'f event list"
  | External_command string

fun run_command :: "'f command \<Rightarrow> 'f event list" where
  "run_command (InstantCommand toRun) = toRun ()"
| "run_command (External_command name) = []"

text \<open>
  What a getter or a factory of generated code hands back: \<^verbatim>\<open>None\<close>, an object
  without a \<^verbatim>\<open>schedule\<close> attribute, or a command.
\<close>

datatype 'f returned = Py_None | Unschedulable string | Schedulable "'f command"

text \<open>
  The override object (\<^verbatim>\<open>self.tuner_drivetrain\<close>) is external code, seen through the
  two attributes the wrapper looks up. An attribute that is missing or not callable is
  \<open>None\<close>; a callable one is the outcome of calling it: \<open>None\<close> when \<open>drive\<close> returns
  normally, \<open>Some e\<close> when it raises \<open>e\<close>.
\<close>

record 'f tuner_drivetrain_obj =
  tuner_drive :: "('f \<Rightarrow> 'f \<Rightarrow> 'f \<Rightarrow> bool \<Rightarrow> py_exception option) option"
  tuner_get_autonomous_command :: "(py_exception + 'f returned) option"

text \<open>
  The factory \<^verbatim>\<open>build_autonomous_command\<close>: the outcome of calling it with no
  argument, and of calling it with the \<open>Drive\<close> object.
\<close>

record 'f autonomous_factory_obj =
  call_no_args :: "py_exception + 'f returned"
  call_with_self :: "py_exception + 'f returned"

text \<open>
  A module that \<^verbatim>\<open>importlib.import_module\<close> found: \<open>class_attr c\<close> is \<open>None\<close> when
  \<^verbatim>\<open>getattr(module, c, None)\<close> is \<^verbatim>\<open>None\<close>, and otherwise the outcome of calling
  that attribute with no argument; \<open>function_attr f\<close> is the attribute \<open>f\<close> when it is
  callable, \<open>None\<close> otherwise.
\<close>

record 'f py_module =
  class_attr :: "string \<Rightarrow> (py_exception + 'f tuner_drivetrain_obj) option"
  function_attr :: "string \<Rightarrow> 'f autonomous_factory_obj option"

type_synonym 'f importer = "string \<Rightarrow> py_exception + 'f py_module"

section \<open>Constants and module globals\<close>

text \<open>
  \<^verbatim>\<open>utils.constants.DriveConstants\<close> is not part of the sources at hand; the model
  takes it as a parameter.
\<close>

record swerve_module =
  drive_motor_id :: int
  steer_motor_id :: int

record 'f drive_constants =
  TRANSLATION_DEADBAND :: 'f
  ROTATION_DEADBAND :: 'f
  MAX_TRANSLATION_OUTPUT :: 'f
  MAX_ROTATION_OUTPUT :: 'f
  MODULES :: "swerve_module list"
  CANBUS_NAME :: string

text \<open>
  The module globals that the \<^verbatim>\<open>try: from phoenix6 ... import\<close> block at the top of
  \<^verbatim>\<open>drive.py\<close> binds: \<^verbatim>\<open>TalonFX\<close> and \<^verbatim>\<open>DutyCycleOut\<close> (the vendor class, or
  \<^verbatim>\<open>None\<close>) and \<^verbatim>\<open>_PHOENIX_IMPORT_ERROR\<close>.
  \<open>import_phoenix6 outcome\<close> runs that block: \<open>outcome\<close> is \<open>None\<close> when the two
  imports succeed and \<open>Some exc\<close> when they raise \<open>exc\<close>; only
  \<^verbatim>\<open>ModuleNotFoundError\<close> is caught, any other exception leaves \<^verbatim>\<open>drive.py\<close>
  itself unimported.
\<close>

datatype vendor_class = TalonFX_class | DutyCycleOut_class

record phoenix_globals =
  TalonFX :: "vendor_class option"
  DutyCycleOut :: "vendor_class option"
  PHOENIX_IMPORT_ERROR :: "py_exception option"

definition import_phoenix6 :: "py_exception option \<Rightarrow> py_exception + phoenix_globals" where
  "import_phoenix6 outcome =
     (case outcome of
        Some exc \<Rightarrow>
          if is_ModuleNotFoundError exc then
            Inr \<lparr>TalonFX = None, DutyCycleOut = None, PHOENIX_IMPORT_ERROR = Some exc\<rparr>
          else Inl exc
      | None \<Rightarrow>
          Inr \<lparr>TalonFX = Some TalonFX_class, DutyCycleOut = Some DutyCycleOut_class,
               PHOENIX_IMPORT_ERROR = None\<rparr>)"

section \<open>The Drive class\<close>

typedecl CommandScheduler

record 'f Drive =
  scheduler :: "CommandScheduler option"
  tuner_drivetrain :: "'f tuner_drivetrain_obj option"
  autonomous_factory :: "'f autonomous_factory_obj option"
  drive_motors :: "talonfx list"
  steer_motors :: "talonfx list"

text \<open>\<^verbatim>\<open>Drive._init_hardware\<close>: the loop over \<^verbatim>\<open>DriveConstants.MODULES\<close>.\<close>

fun init_hardware ::
  "'f drive_constants \<Rightarrow> swerve_module list \<Rightarrow> 'f Drive \<Rightarrow> 'f event list \<times> 'f Drive" where
  "init_hardware K [] self = ([], self)"
| "init_hardware K (modul # rest) self =
     (let self1 = self\<lparr>drive_motors := drive_motors self @
                    [\<lparr>device_id = drive_motor_id modul, canbus = CANBUS_NAME K\<rparr>]\<rparr>;
          self2 = self1\<lparr>steer_motors := steer_motors self1 @
                    [\<lparr>device_id = steer_motor_id modul, canbus = CANBUS_NAME K\<rparr>]\<rparr>;
          (evs, self3) = init_hardware K rest self2
      in (TalonFX_created (drive_motor_id modul) (CANBUS_NAME K) #
          TalonFX_created (steer_motor_id modul) (CANBUS_NAME K) # evs, self3))"

text \<open>\<^verbatim>\<open>Drive._try_create_tuner_drivetrain\<close>: the loop over the candidates.\<close>

definition tuner_drivetrain_candidates :: "(string \<times> string) list" where
  "tuner_drivetrain_candidates =
     [(''generated.command_swerve_drivetrain'', ''CommandSwerveDrivetrain''),
      (''subsystems.command_swerve_drivetrain'', ''CommandSwerveDrivetrain''),
      (''command_swerve_drivetrain'', ''CommandSwerveDrivetrain'')]"

text \<open>
  The f-string of the warning:
  \<^verbatim>\<open>f"Found {module_name}.{class_name} but failed to construct it: {exc}"\<close>.
\<close>

definition construct_failure_warning :: "string \<Rightarrow> string \<Rightarrow> py_exception \<Rightarrow> string" where
  "construct_failure_warning module_name class_name exc =
     ''Found '' @ module_name @ ''.'' @ class_name @
     '' but failed to construct it: '' @ str_of exc"

fun try_drivetrain_candidates ::
  "'f importer \<Rightarrow> (string \<times> string) list \<Rightarrow>
     'f event list \<times> (py_exception + 'f tuner_drivetrain_obj option)" where
  "try_drivetrain_candidates import_module [] = ([], Inr None)"
| "try_drivetrain_candidates import_module ((module_name, class_name) # rest) =
     (case import_module module_name of
        Inl exc \<Rightarrow>
          if is_ModuleNotFoundError exc then try_drivetrain_candidates import_module rest
          else ([], Inl exc)
      | Inr modul \<Rightarrow>
          (case class_attr modul class_name of
             None \<Rightarrow> try_drivetrain_candidates import_module rest
           | Some (Inr obj) \<Rightarrow> ([Tuner_constructed module_name class_name], Inr (Some obj))
           | Some (Inl exc) \<Rightarrow>
               if is_Exception exc then
                 ([Tuner_constructed module_name class_name,
                   Report_warning (construct_failure_warning module_name class_name exc)],
                  Inr None)
               else ([Tuner_constructed module_name class_name], Inl exc)))"

definition try_create_tuner_drivetrain ::
  "'f importer \<Rightarrow> 'f event list \<times> (py_exception + 'f tuner_drivetrain_obj option)" where
  "try_create_tuner_drivetrain import_module =
     try_drivetrain_candidates import_module tuner_drivetrain_candidates"

text \<open>\<^verbatim>\<open>Drive._try_create_tuner_auto_factory\<close>\<close>

definition tuner_auto_factory_candidates :: "(string \<times> string) list" where
  "tuner_auto_factory_candidates =
     [(''subsystems.tuner_autonomous'', ''build_autonomous_command''),
      (''generated.tuner_autonomous'', ''build_autonomous_command''),
      (''tuner_autonomous'', ''build_autonomous_command'')]"

fun try_factory_candidates ::
  "'f importer \<Rightarrow> (string \<times> string) list \<Rightarrow> py_exception + 'f autonomous_factory_obj option" where
  "try_factory_candidates import_module [] = Inr None"
| "try_factory_candidates import_module ((module_name, fn_name) # rest) =
     (case import_module module_name of
        Inl exc \<Rightarrow>
          if is_ModuleNotFoundError exc then try_factory_candidates import_module rest
          else Inl exc
      | Inr modul \<Rightarrow>
          (case function_attr modul fn_name of
             Some factory \<Rightarrow> Inr (Some factory)
           | None \<Rightarrow> try_factory_candidates import_module rest))"

definition try_create_tuner_auto_factory ::
  "'f importer \<Rightarrow> py_exception + 'f autonomous_factory_obj option" where
  "try_create_tuner_auto_factory import_module =
     try_factory_candidates import_module tuner_auto_factory_candidates"

text \<open>\<^verbatim>\<open>Drive.__init__\<close>\<close>

definition Drive_init ::
  "phoenix_globals \<Rightarrow> 'f drive_constants \<Rightarrow> 'f importer \<Rightarrow> CommandScheduler option \<Rightarrow>
     'f event list \<times> (py_exception + 'f Drive)" where
  "Drive_init G K import_module sched =
     (if TalonFX G = None \<or> DutyCycleOut G = None then
        ([], Inl (RuntimeError
           ''Phoenix 6 is required for swerve bring-up. Install project dependencies first.''))
      else
        (case try_create_tuner_drivetrain import_module of
           (evs1, Inl exc) \<Rightarrow> (evs1, Inl exc)
         | (evs1, Inr tuner) \<Rightarrow>
             (case try_create_tuner_auto_factory import_module of
                Inl exc \<Rightarrow> (evs1, Inl exc)
              | Inr factory \<Rightarrow>
                  (let self = \<lparr>scheduler = sched, tuner_drivetrain = tuner,
                               autonomous_factory = factory,
                               drive_motors = [], steer_motors = []\<rparr>;
                       (evs2, self') = init_hardware K (MODULES K) self
                   in (evs1 @ evs2, Inr self')))))"

text \<open>
  Lines 119 to 140 of \<^verbatim>\<open>Drive.drive\<close>: the open-loop bring-up mix. \<^verbatim>\<open>zip\<close> pairs
  the drive motors with the four outputs and stops at the shorter of the two.
\<close>

definition bring_up_mix ::
  "'f::{zero,one,plus,minus,uminus,times,abs,ord} drive_constants \<Rightarrow> 'f Drive \<Rightarrow>
     'f \<Rightarrow> 'f \<Rightarrow> 'f \<Rightarrow> 'f event list" where
  "bring_up_mix K self x_displacement y_displacement rotation =
     (let x = apply_deadband x_displacement (TRANSLATION_DEADBAND K);
          y = apply_deadband y_displacement (TRANSLATION_DEADBAND K);
          omega = apply_deadband rotation (ROTATION_DEADBAND K);
          x = x * MAX_TRANSLATION_OUTPUT K;
          y = y * MAX_TRANSLATION_OUTPUT K;
          omega = omega * MAX_ROTATION_OUTPUT K;
          drive_outputs =
            [clamp (x + y + omega),
             clamp (x - y - omega),
             clamp (x - y + omega),
             clamp (x + y - omega)];
          steer_output = clamp omega
      in map (\<lambda>(motor, output). Set_control motor output) (zip (drive_motors self) drive_outputs) @
         map (\<lambda>motor. Set_control motor steer_output) (steer_motors self))"

text \<open>\<^verbatim>\<open>Drive.drive\<close>\<close>

definition drive ::
  "'f::{zero,one,plus,minus,uminus,times,abs,ord} drive_constants \<Rightarrow> 'f Drive \<Rightarrow>
     'f \<Rightarrow> 'f \<Rightarrow> 'f \<Rightarrow> bool \<Rightarrow> 'f event list \<times> (py_exception + unit)" where
  "drive K self x_displacement y_displacement rotation field_oriented =
     (case (case tuner_drivetrain self of None \<Rightarrow> None | Some tuner \<Rightarrow> tuner_drive tuner) of
        Some tuner_drive_fn \<Rightarrow>
          (case tuner_drive_fn x_displacement y_displacement rotation field_oriented of
             None \<Rightarrow>
               ([Tuner_drive_called x_displacement y_displacement rotation field_oriented],
                Inr ())
           | Some exc \<Rightarrow>
               if is_TypeError exc then
                 (Tuner_drive_called x_displacement y_displacement rotation field_oriented #
                    bring_up_mix K self x_displacement y_displacement rotation, Inr ())
               else
                 ([Tuner_drive_called x_displacement y_displacement rotation field_oriented],
                  Inl exc))
      | None \<Rightarrow> (bring_up_mix K self x_displacement y_displacement rotation, Inr ()))"

text \<open>\<^verbatim>\<open>Drive.stop\<close>\<close>

definition stop :: "'f::zero Drive \<Rightarrow> 'f event list" where
  "stop self =
     map (\<lambda>motor. Set_control motor 0) (drive_motors self) @
     map (\<lambda>motor. Set_control motor 0) (steer_motors self)"

text \<open>
  \<^verbatim>\<open>Drive.get_autonomous_command\<close>. \<open>from_override\<close> is its first block (the override's
  getter), \<open>from_factory\<close> its second (the factory, called again with \<open>self\<close> when the
  call without argument raises \<^verbatim>\<open>TypeError\<close>); each yields \<open>Inr None\<close> when the
  function goes on to the next block.
\<close>

definition schedulable :: "'f returned \<Rightarrow> 'f command option" where
  "schedulable r = (case r of Schedulable c \<Rightarrow> Some c | _ \<Rightarrow> None)"

definition from_override :: "'f Drive \<Rightarrow> 'f event list \<times> (py_exception + 'f command option)" where
  "from_override self =
     (case (case tuner_drivetrain self of None \<Rightarrow> None
            | Some tuner \<Rightarrow> tuner_get_autonomous_command tuner) of
        None \<Rightarrow> ([], Inr None)
      | Some (Inl exc) \<Rightarrow> ([Tuner_get_autonomous_command_called], Inl exc)
      | Some (Inr command) \<Rightarrow> ([Tuner_get_autonomous_command_called], Inr (schedulable command)))"

definition from_factory :: "'f Drive \<Rightarrow> 'f event list \<times> (py_exception + 'f command option)" where
  "from_factory self =
     (case autonomous_factory self of
        None \<Rightarrow> ([], Inr None)
      | Some factory \<Rightarrow>
          (case call_no_args factory of
             Inr command \<Rightarrow> ([Autonomous_factory_called False], Inr (schedulable command))
           | Inl exc \<Rightarrow>
               if is_TypeError exc then
                 (case call_with_self factory of
                    Inr command \<Rightarrow>
                      ([Autonomous_factory_called False, Autonomous_factory_called True],
                       Inr (schedulable command))
                  | Inl exc' \<Rightarrow>
                      ([Autonomous_factory_called False, Autonomous_factory_called True],
                       Inl exc'))
               else ([Autonomous_factory_called False], Inl exc)))"

definition no_source_warning :: string where
  "no_source_warning =
     ''No Phoenix 6 Tuner autonomous command source found; using stop command.''"

definition get_autonomous_command ::
  "'f::zero Drive \<Rightarrow> 'f event list \<times> (py_exception + 'f command)" where
  "get_autonomous_command self =
     (case from_override self of
        (evs1, Inl exc) \<Rightarrow> (evs1, Inl exc)
      | (evs1, Inr (Some command)) \<Rightarrow> (evs1, Inr command)
      | (evs1, Inr None) \<Rightarrow>
          (case from_factory self of
             (evs2, Inl exc) \<Rightarrow> (evs1 @ evs2, Inl exc)
           | (evs2, Inr (Some command)) \<Rightarrow> (evs1 @ evs2, Inr command)
           | (evs2, Inr None) \<Rightarrow>
               (evs1 @ evs2 @ [Report_warning no_source_warning],
                Inr (InstantCommand (\<lambda>_. stop self)))))"

section \<open>Absence of the optional modules\<close>

text \<open>
  A candidate is absent when importing its module raises \<^verbatim>\<open>ModuleNotFoundError\<close>, or
  the module is there and lacks the attribute. \<open>optional_classes_absent\<close> says so of
  all six candidates that \<open>Drive_init\<close> probes.
\<close>

definition drivetrain_class_absent :: "'f importer \<Rightarrow> string \<times> string \<Rightarrow> bool" where
  "drivetrain_class_absent import_module candidate =
     (case import_module (fst candidate) of
        Inl exc \<Rightarrow> is_ModuleNotFoundError exc
      | Inr modul \<Rightarrow> class_attr modul (snd candidate) = None)"

definition factory_absent :: "'f importer \<Rightarrow> string \<times> string \<Rightarrow> bool" where
  "factory_absent import_module candidate =
     (case import_module (fst candidate) of
        Inl exc \<Rightarrow> is_ModuleNotFoundError exc
      | Inr modul \<Rightarrow> function_attr modul (snd candidate) = None)"

definition optional_classes_absent :: "'f importer \<Rightarrow> bool" where
  "optional_classes_absent import_module =
     (list_all (drivetrain_class_absent import_module) tuner_drivetrain_candidates \<and>
      list_all (factory_absent import_module) tuner_auto_factory_candidates)"

text \<open>
  \<open>construction_failed import_module w candidate\<close>: the candidate's module imports, its
  class attribute is there, calling it raises an \<^verbatim>\<open>Exception\<close>, and \<open>w\<close> is the
  warning text that \<open>try_drivetrain_candidates\<close> builds for it.
\<close>

definition construction_failed :: "'f importer \<Rightarrow> string \<Rightarrow> string \<times> string \<Rightarrow> bool" where
  "construction_failed import_module w candidate =
     (case import_module (fst candidate) of
        Inl exc \<Rightarrow> False
      | Inr modul \<Rightarrow>
          (case class_attr modul (snd candidate) of
             None \<Rightarrow> False
           | Some (Inr obj) \<Rightarrow> False
           | Some (Inl exc) \<Rightarrow>
               is_Exception exc \<and>
               w = construct_failure_warning (fst candidate) (snd candidate) exc))"

section \<open>Concrete inputs\<close>

text \<open>
  A four-module configuration and a few environments, used to run the definitions on
  concrete inputs: no optional module installed, an optional module that fails while
  it is imported, a generated drivetrain class whose constructor raises, and overrides
  whose \<open>drive\<close> raises.
\<close>

definition bench_constants :: "pyfloat drive_constants" where
  "bench_constants =
     \<lparr>TRANSLATION_DEADBAND = Finite 0.1, ROTATION_DEADBAND = Finite 0.1,
      MAX_TRANSLATION_OUTPUT = Finite 0.5, MAX_ROTATION_OUTPUT = Finite 0.5,
      MODULES = [\<lparr>drive_motor_id = 1, steer_motor_id = 2\<rparr>,
                 \<lparr>drive_motor_id = 3, steer_motor_id = 4\<rparr>,
                 \<lparr>drive_motor_id = 5, steer_motor_id = 6\<rparr>,
                 \<lparr>drive_motor_id = 7, steer_motor_id = 8\<rparr>],
      CANBUS_NAME = ''rio''\<rparr>"

definition phoenix_bound :: phoenix_globals where
  "phoenix_bound =
     \<lparr>TalonFX = Some TalonFX_class, DutyCycleOut = Some DutyCycleOut_class,
      PHOENIX_IMPORT_ERROR = None\<rparr>"

definition bench_drive :: "pyfloat Drive" where
  "bench_drive =
     \<lparr>scheduler = None, tuner_drivetrain = None, autonomous_factory = None,
      drive_motors = [\<lparr>device_id = 1, canbus = ''rio''\<rparr>, \<lparr>device_id = 3, canbus = ''rio''\<rparr>,
                      \<lparr>device_id = 5, canbus = ''rio''\<rparr>, \<lparr>device_id = 7, canbus = ''rio''\<rparr>],
      steer_motors = [\<lparr>device_id = 2, canbus = ''rio''\<rparr>, \<lparr>device_id = 4, canbus = ''rio''\<rparr>,
                      \<lparr>device_id = 6, canbus = ''rio''\<rparr>, \<lparr>device_id = 8, canbus = ''rio''\<rparr>]\<rparr>"

definition absent_importer :: "pyfloat importer" where
  "absent_importer module_name = Inl (ModuleNotFoundError module_name)"

definition broken_importer :: "pyfloat importer" where
  "broken_importer module_name = Inl (OtherException ''invalid syntax'')"

definition failing_class_importer :: "pyfloat importer" where
  "failing_class_importer module_name =
     (if module_name = ''generated.command_swerve_drivetrain'' then
        Inr \<lparr>class_attr = (\<lambda>c. if c = ''CommandSwerveDrivetrain''
                                 then Some (Inl (OtherException ''no CAN bus'')) else None),
             function_attr = (\<lambda>f. None)\<rparr>
      else Inl (ModuleNotFoundError module_name))"

definition always_raises :: "py_exception \<Rightarrow> pyfloat \<Rightarrow> pyfloat \<Rightarrow> pyfloat \<Rightarrow> bool \<Rightarrow> py_exception option" where
  "always_raises exc x y r f = Some exc"

definition raising_tuner :: "py_exception \<Rightarrow> pyfloat tuner_drivetrain_obj" where
  "raising_tuner exc =
     \<lparr>tuner_drive = Some (always_raises exc), tuner_get_autonomous_command = None\<rparr>"

definition raising_override :: "py_exception \<Rightarrow> pyfloat Drive" where
  "raising_override exc = bench_drive\<lparr>tuner_drivetrain := Some (raising_tuner exc)\<rparr>"

section \<open>Properties of deadband and clamp\<close>

lemma clamp_cases:
  "clamp v = - 1 \<or> clamp v = 1 \<or> (clamp v = v \<and> - 1 < v \<and> v < 1)"
  by (simp add: clamp_def py_min_def py_max_def)

lemma clamp_NaN: "clamp NaN = (1::pyfloat)"
  by (simp add: clamp_def py_min_def py_max_def one_pyfloat_def)

lemma clamp_pyfloat_range: "- 1 \<le> clamp (v::pyfloat) \<and> clamp v \<le> 1"
  by (cases v) (auto simp add: clamp_def py_min_def py_max_def one_pyfloat_def)

lemma pyfloat_le_not_less: "(d::pyfloat) \<le> a \<Longrightarrow> \<not> a < d"
  by (cases d; cases a) auto

lemma apply_deadband_zero: "apply_deadband 0 d = 0"
  by (simp add: apply_deadband_def)

section \<open>Properties of the discovery of optional modules\<close>

lemma construction_failedE:
  assumes "construction_failed import_module w (mname, cname)"
  obtains modul exc where "import_module mname = Inr modul"
    and "class_attr modul cname = Some (Inl exc)" and "is_Exception exc"
    and "w = construct_failure_warning mname cname exc"
proof (cases "import_module mname")
  case (Inl exc)
  with assms show ?thesis by (simp add: construction_failed_def)
next
  case modul: (Inr modul)
  show ?thesis
  proof (cases "class_attr modul cname")
    case None
    with assms modul show ?thesis by (simp add: construction_failed_def)
  next
    case (Some outcome)
    show ?thesis
    proof (cases outcome)
      case (Inl exc)
      with assms modul Some that show ?thesis by (simp add: construction_failed_def)
    next
      case (Inr obj)
      with assms modul Some show ?thesis by (simp add: construction_failed_def)
    qed
  qed
qed

lemma try_drivetrain_skip:
  assumes "drivetrain_class_absent import_module (mname, cname)"
  shows "try_drivetrain_candidates import_module ((mname, cname) # rest) =
         try_drivetrain_candidates import_module rest"
proof (cases "import_module mname")
  case (Inl exc)
  with assms show ?thesis by (simp add: drivetrain_class_absent_def)
next
  case (Inr modul)
  with assms show ?thesis by (simp add: drivetrain_class_absent_def)
qed

lemma try_factory_skip:
  assumes "factory_absent import_module (mname, fname)"
  shows "try_factory_candidates import_module ((mname, fname) # rest) =
         try_factory_candidates import_module rest"
proof (cases "import_module mname")
  case (Inl exc)
  with assms show ?thesis by (simp add: factory_absent_def)
next
  case (Inr modul)
  with assms show ?thesis by (simp add: factory_absent_def)
qed

lemma absent_drivetrain_candidates:
  "list_all (drivetrain_class_absent import_module) cs \<Longrightarrow>
     try_drivetrain_candidates import_module cs = ([], Inr None)"
proof (induction cs)
  case Nil
  then show ?case by simp
next
  case (Cons c cs)
  obtain mname cname where c: "c = (mname, cname)" by (cases c)
  from Cons.prems c have a: "drivetrain_class_absent import_module (mname, cname)"
    and r: "list_all (drivetrain_class_absent import_module) cs"
    by simp_all
  show ?case
    unfolding c try_drivetrain_skip [OF a] by (rule Cons.IH [OF r])
qed

lemma absent_factory_candidates:
  "list_all (factory_absent import_module) cs \<Longrightarrow>
     try_factory_candidates import_module cs = Inr None"
proof (induction cs)
  case Nil
  then show ?case by simp
next
  case (Cons c cs)
  obtain mname fname where c: "c = (mname, fname)" by (cases c)
  from Cons.prems c have a: "factory_absent import_module (mname, fname)"
    and r: "list_all (factory_absent import_module) cs"
    by simp_all
  show ?case
    unfolding c try_factory_skip [OF a] by (rule Cons.IH [OF r])
qed

lemma try_drivetrain_failed:
  assumes "construction_failed import_module w (mname, cname)"
  shows "try_drivetrain_candidates import_module ((mname, cname) # rest) =
       ([Tuner_constructed mname cname, Report_warning w], Inr None)"
proof -
  from assms obtain modul exc where "import_module mname = Inr modul"
    and "class_attr modul cname = Some (Inl exc)" and "is_Exception exc"
    and "w = construct_failure_warning mname cname exc"
    by (rule construction_failedE)
  then show ?thesis by simp
qed

lemma failing_drivetrain_candidate:
  assumes "list_all (drivetrain_class_absent import_module) pre"
    and "construction_failed import_module w (mname, cname)"
  shows "try_drivetrain_candidates import_module (pre @ (mname, cname) # rest) =
       ([Tuner_constructed mname cname, Report_warning w], Inr None)"
  using assms(1)
proof (induction pre)
  case Nil
  from assms(2) show ?case by (simp only: append_Nil try_drivetrain_failed)
next
  case (Cons c pre)
  obtain m n where c: "c = (m, n)" by (cases c)
  from Cons.prems c have a: "drivetrain_class_absent import_module (m, n)"
    and r: "list_all (drivetrain_class_absent import_module) pre"
    by simp_all
  show ?case
    unfolding c append_Cons try_drivetrain_skip [OF a] by (rule Cons.IH [OF r])
qed

lemma drivetrain_candidates_warning:
  assumes "Report_warning w \<in> set (fst (try_drivetrain_candidates import_module cs))"
  shows "snd (try_drivetrain_candidates import_module cs) = Inr None \<and>
         list_ex (construction_failed import_module w) cs"
  using assms
proof (induction cs)
  case Nil
  then show ?case by simp
next
  case (Cons c rest)
  obtain mname cname where c: "c = (mname, cname)"
    by (cases c)
  have skip: ?case
    if eq: "try_drivetrain_candidates import_module ((mname, cname) # rest) =
            try_drivetrain_candidates import_module rest"
  proof -
    from Cons.prems have "Report_warning w \<in> set (fst (try_drivetrain_candidates import_module rest))"
      unfolding c eq .
    from Cons.IH [OF this] show ?thesis
      unfolding c eq by simp
  qed
  show ?case
  proof (cases "import_module mname")
    case (Inl exc)
    show ?thesis
    proof (cases "is_ModuleNotFoundError exc")
      case True
      with Inl show ?thesis by (intro skip) simp
    next
      case False
      with Inl c Cons.prems show ?thesis by simp
    qed
  next
    case modul: (Inr modul)
    show ?thesis
    proof (cases "class_attr modul cname")
      case None
      with modul show ?thesis by (intro skip) simp
    next
      case (Some outcome)
      show ?thesis
      proof (cases outcome)
        case (Inl exc)
        show ?thesis
        proof (cases "is_Exception exc")
          case True
          with modul Some Inl c Cons.prems
          have "w = construct_failure_warning mname cname exc" by simp
          with modul Some Inl True have "construction_failed import_module w (mname, cname)"
            by (simp add: construction_failed_def)
          moreover from modul Some Inl True
          have "snd (try_drivetrain_candidates import_module ((mname, cname) # rest)) = Inr None"
            by simp
          ultimately show ?thesis unfolding c by simp
        next
          case False
          with modul Some Inl c Cons.prems show ?thesis by simp
        qed
      next
        case (Inr obj)
        with modul Some c Cons.prems show ?thesis by simp
      qed
    qed
  qed
qed

lemma init_hardware_fields:
  "tuner_drivetrain (snd (init_hardware K ms self)) = tuner_drivetrain self \<and>
   autonomous_factory (snd (init_hardware K ms self)) = autonomous_factory self"
proof (induction ms arbitrary: self)
  case Nil
  show ?case by simp
next
  case (Cons m ms)
  show ?case
    by (simp add: Let_def split_beta Cons.IH)
qed

lemma init_hardware_events:
  "Report_warning w \<notin> set (fst (init_hardware K ms self))"
proof (induction ms arbitrary: self)
  case Nil
  show ?case by simp
next
  case (Cons m ms)
  show ?case
    by (simp add: Let_def split_beta Cons.IH)
qed

lemma Drive_init_absent:
  assumes "TalonFX G \<noteq> None" and "DutyCycleOut G \<noteq> None"
    and "optional_classes_absent import_module"
  shows "Drive_init G K import_module sched =
    (fst (init_hardware K (MODULES K)
            \<lparr>scheduler = sched, tuner_drivetrain = None, autonomous_factory = None,
             drive_motors = [], steer_motors = []\<rparr>),
     Inr (snd (init_hardware K (MODULES K)
            \<lparr>scheduler = sched, tuner_drivetrain = None, autonomous_factory = None,
             drive_motors = [], steer_motors = []\<rparr>)))"
proof -
  from assms(3) have t: "try_create_tuner_drivetrain import_module = ([], Inr None)"
    and f: "try_create_tuner_auto_factory import_module = Inr None"
    by (simp_all add: optional_classes_absent_def try_create_tuner_drivetrain_def
        try_create_tuner_auto_factory_def absent_drivetrain_candidates
        absent_factory_candidates)
  from assms(1,2) show ?thesis
    by (simp add: Drive_init_def t f Let_def split_beta del: not_None_eq)
qed

lemma Drive_init_warning:
  assumes "Report_warning w \<in> set (fst (Drive_init G K import_module sched))"
  shows "Report_warning w \<in> set (fst (try_create_tuner_drivetrain import_module))"
proof (cases "TalonFX G = None \<or> DutyCycleOut G = None")
  case True
  with assms show ?thesis by (simp add: Drive_init_def)
next
  case False
  then have D: "Drive_init G K import_module sched =
     (case try_create_tuner_drivetrain import_module of
           (evs1, Inl exc) \<Rightarrow> (evs1, Inl exc)
         | (evs1, Inr tuner) \<Rightarrow>
             (case try_create_tuner_auto_factory import_module of
                Inl exc \<Rightarrow> (evs1, Inl exc)
              | Inr factory \<Rightarrow>
                  (let self = \<lparr>scheduler = sched, tuner_drivetrain = tuner,
                               autonomous_factory = factory,
                               drive_motors = [], steer_motors = []\<rparr>;
                       (evs2, self') = init_hardware K (MODULES K) self
                   in (evs1 @ evs2, Inr self'))))"
    unfolding Drive_init_def by (rule if_not_P)
  obtain evs1 r1 where t: "try_create_tuner_drivetrain import_module = (evs1, r1)"
    by (cases "try_create_tuner_drivetrain import_module")
  show ?thesis
  proof (cases r1)
    case (Inl exc)
    with assms show ?thesis unfolding D t by simp
  next
    case tuner: (Inr tuner)
    show ?thesis
    proof (cases "try_create_tuner_auto_factory import_module")
      case (Inl exc)
      with assms tuner show ?thesis unfolding D t by simp
    next
      case (Inr factory)
      with assms tuner show ?thesis
        unfolding D t by (simp add: Let_def split_beta init_hardware_events)
    qed
  qed
qed

section \<open>The discovery on the concrete inputs\<close>

lemma absent_importer_absent: "optional_classes_absent absent_importer"
  by (simp add: optional_classes_absent_def drivetrain_class_absent_def factory_absent_def
      absent_importer_def tuner_drivetrain_candidates_def tuner_auto_factory_candidates_def)

lemma bench_init_hardware:
  "init_hardware bench_constants (MODULES bench_constants)
     \<lparr>scheduler = None, tuner_drivetrain = None, autonomous_factory = None,
      drive_motors = [], steer_motors = []\<rparr> =
   ([TalonFX_created 1 ''rio'', TalonFX_created 2 ''rio'', TalonFX_created 3 ''rio'',
     TalonFX_created 4 ''rio'', TalonFX_created 5 ''rio'', TalonFX_created 6 ''rio'',
     TalonFX_created 7 ''rio'', TalonFX_created 8 ''rio''], bench_drive)"
  by (simp add: bench_constants_def bench_drive_def Let_def)

lemma phoenix_bound_classes:
  "TalonFX phoenix_bound \<noteq> None" "DutyCycleOut phoenix_bound \<noteq> None"
  by (simp_all add: phoenix_bound_def)

lemma bench_Drive_init:
  "Drive_init phoenix_bound bench_constants absent_importer None =
   ([TalonFX_created 1 ''rio'', TalonFX_created 2 ''rio'', TalonFX_created 3 ''rio'',
     TalonFX_created 4 ''rio'', TalonFX_created 5 ''rio'', TalonFX_created 6 ''rio'',
     TalonFX_created 7 ''rio'', TalonFX_created 8 ''rio''], Inr bench_drive)"
  unfolding Drive_init_absent [OF phoenix_bound_classes absent_importer_absent]
    bench_init_hardware
  by simp

lemma broken_try_drivetrain:
  "try_create_tuner_drivetrain broken_importer = ([], Inl (OtherException ''invalid syntax''))"
  by (simp add: try_create_tuner_drivetrain_def tuner_drivetrain_candidates_def
      broken_importer_def)

lemma broken_Drive_init:
  "Drive_init phoenix_bound bench_constants broken_importer None =
     ([], Inl (OtherException ''invalid syntax''))"
  by (simp add: Drive_init_def broken_try_drivetrain phoenix_bound_def)

lemma failing_class_construction_failed:
  "construction_failed failing_class_importer
     (construct_failure_warning ''generated.command_swerve_drivetrain''
        ''CommandSwerveDrivetrain'' (OtherException ''no CAN bus''))
     (''generated.command_swerve_drivetrain'', ''CommandSwerveDrivetrain'')"
  by (simp add: construction_failed_def failing_class_importer_def)

lemma failing_class_no_factory:
  "try_create_tuner_auto_factory failing_class_importer = Inr None"
  by (simp add: try_create_tuner_auto_factory_def tuner_auto_factory_candidates_def
      failing_class_importer_def)

section \<open>The claims\<close>



text \<open>
  Claim C2. With no override, every effect of \<open>drive\<close> is a duty-cycle command whose
  value \<open>v\<close> satisfies \<open>-1 \<le> v\<close> and \<open>v \<le> 1\<close> in the order of floats, for all inputs,
  the infinities and NaN included (\<open>clamp NaN\<close> is \<open>1\<close>).
\<close>

theorem drive_outputs_in_unit_interval:
  "tuner_drivetrain self = None \<Longrightarrow>
   \<forall>e \<in> set (fst (drive K self x_displacement y_displacement rotation field_oriented)).
     \<exists>motor v. e = Set_control motor (v::pyfloat) \<and> - 1 \<le> v \<and> v \<le> 1"
  by (auto simp add: drive_def bring_up_mix_def Let_def clamp_pyfloat_range dest!: set_zip_rightD)

theorem drive_outputs_in_unit_interval_witness:
  "tuner_drivetrain bench_drive = None \<and>
   Set_control \<lparr>device_id = 1, canbus = ''rio''\<rparr> 1 \<in>
     set (fst (drive bench_constants bench_drive NaN (Finite 0.05) (Finite (- 0.4)) False)) \<and>
   - 1 \<le> (1::pyfloat) \<and> (1::pyfloat) \<le> 1"
proof -
  have h: "tuner_drivetrain bench_drive = None"
    by (simp add: bench_drive_def)
  have mem: "Set_control \<lparr>device_id = 1, canbus = ''rio''\<rparr> 1 \<in>
     set (fst (drive bench_constants bench_drive NaN (Finite 0.05) (Finite (- 0.4)) False))"
    by (simp add: drive_def bring_up_mix_def Let_def bench_drive_def bench_constants_def
        apply_deadband_def clamp_def py_min_def py_max_def zero_pyfloat_def one_pyfloat_def
        minus_pyfloat_def)
  from drive_outputs_in_unit_interval [OF h] mem
  have "\<exists>motor v. Set_control \<lparr>device_id = 1, canbus = ''rio''\<rparr> (1::pyfloat) = Set_control motor v \<and>
          - 1 \<le> v \<and> v \<le> 1"
    by blast
  with h mem show ?thesis by simp
qed

text \<open>
  Claim C3. With no override, an axis input whose absolute value is strictly below the
  deadband of its axis is deadbanded to exactly \<open>0\<close>, and \<open>drive\<close> then does exactly
  what it does when that input is \<open>0\<close>: the commands to the wheels and to the steer
  motors do not depend on the value below the deadband. Stated for every number type.
\<close>

theorem deadband_zeroes_axis:
  "tuner_drivetrain self = None \<Longrightarrow>
   (\<bar>x_displacement\<bar> < TRANSLATION_DEADBAND K \<longrightarrow>
      apply_deadband x_displacement (TRANSLATION_DEADBAND K) = 0 \<and>
      drive K self x_displacement y_displacement rotation field_oriented =
      drive K self 0 y_displacement rotation field_oriented) \<and>
   (\<bar>y_displacement\<bar> < TRANSLATION_DEADBAND K \<longrightarrow>
      apply_deadband y_displacement (TRANSLATION_DEADBAND K) = 0 \<and>
      drive K self x_displacement y_displacement rotation field_oriented =
      drive K self x_displacement 0 rotation field_oriented) \<and>
   (\<bar>rotation\<bar> < ROTATION_DEADBAND K \<longrightarrow>
      apply_deadband rotation (ROTATION_DEADBAND K) = 0 \<and>
      drive K self x_displacement y_displacement rotation field_oriented =
      drive K self x_displacement y_displacement 0 field_oriented)"
  by (simp add: drive_def bring_up_mix_def Let_def apply_deadband_zero)
    (simp add: apply_deadband_def)

theorem deadband_zeroes_axis_witness:
  "tuner_drivetrain bench_drive = None \<and>
   \<bar>Finite 0.05\<bar> < TRANSLATION_DEADBAND bench_constants \<and>
   \<bar>Finite (- 0.05)\<bar> < TRANSLATION_DEADBAND bench_constants \<and>
   \<bar>Finite 0.09\<bar> < ROTATION_DEADBAND bench_constants \<and>
   apply_deadband (Finite 0.05) (TRANSLATION_DEADBAND bench_constants) = 0 \<and>
   apply_deadband (Finite (- 0.05)) (TRANSLATION_DEADBAND bench_constants) = 0 \<and>
   apply_deadband (Finite 0.09) (ROTATION_DEADBAND bench_constants) = 0 \<and>
   drive bench_constants bench_drive (Finite 0.05) (Finite (- 0.05)) (Finite 0.09) False =
     drive bench_constants bench_drive 0 (Finite (- 0.05)) (Finite 0.09) False \<and>
   drive bench_constants bench_drive (Finite 0.05) (Finite (- 0.05)) (Finite 0.09) False =
     drive bench_constants bench_drive (Finite 0.05) 0 (Finite 0.09) False \<and>
   drive bench_constants bench_drive (Finite 0.05) (Finite (- 0.05)) (Finite 0.09) False =
     drive bench_constants bench_drive (Finite 0.05) (Finite (- 0.05)) 0 False"
proof -
  have h: "tuner_drivetrain bench_drive = None"
    by (simp add: bench_drive_def)
  have hx: "\<bar>Finite 0.05\<bar> < TRANSLATION_DEADBAND bench_constants"
    and hy: "\<bar>Finite (- 0.05)\<bar> < TRANSLATION_DEADBAND bench_constants"
    and hr: "\<bar>Finite 0.09\<bar> < ROTATION_DEADBAND bench_constants"
    by (simp_all add: bench_constants_def)
  from deadband_zeroes_axis [OF h, of "Finite 0.05" bench_constants "Finite (- 0.05)" "Finite 0.09" False] h hx hy hr
  show ?thesis by blast
qed

text \<open>
  Claim C4. \<open>stop\<close> commands every drive motor and every steer motor with the duty
  cycle \<open>0\<close>, commands nothing else, and issues one command per motor, whatever the
  state of the \<open>Drive\<close> object (override present or not).
\<close>

theorem stop_zeroes_every_motor:
  "(\<forall>motor \<in> set (drive_motors self) \<union> set (steer_motors self).
      Set_control motor 0 \<in> set (stop self)) \<and>
   (\<forall>e \<in> set (stop self). \<exists>motor. e = Set_control motor 0) \<and>
   length (stop self) = length (drive_motors self) + length (steer_motors self)"
  by (auto simp add: stop_def)

theorem stop_zeroes_every_motor_witness:
  "Set_control \<lparr>device_id = 1, canbus = ''rio''\<rparr> 0 \<in>
     set (stop (raising_override (OtherException ''boom''))) \<and>
   Set_control \<lparr>device_id = 8, canbus = ''rio''\<rparr> 0 \<in>
     set (stop (raising_override (OtherException ''boom''))) \<and>
   length (stop (raising_override (OtherException ''boom''))) = 8"
proof -
  have d: "\<lparr>device_id = 1, canbus = ''rio''\<rparr> \<in>
      set (drive_motors (raising_override (OtherException ''boom''))) \<union>
      set (steer_motors (raising_override (OtherException ''boom'')))"
    and s: "\<lparr>device_id = 8, canbus = ''rio''\<rparr> \<in>
      set (drive_motors (raising_override (OtherException ''boom''))) \<union>
      set (steer_motors (raising_override (OtherException ''boom'')))"
    and l: "length (drive_motors (raising_override (OtherException ''boom''))) +
      length (steer_motors (raising_override (OtherException ''boom''))) = 8"
    by (simp_all add: raising_override_def bench_drive_def)
  from stop_zeroes_every_motor [of "raising_override (OtherException ''boom'')"] d s l
  show ?thesis by auto
qed

text \<open>
  Claim C5. When \<open>tuner_drivetrain\<close> and \<open>autonomous_factory\<close> are both \<open>None\<close>,
  \<open>get_autonomous_command\<close> reports the one warning and returns a command whose run
  has exactly the effects of \<open>stop\<close>.
\<close>

theorem get_autonomous_command_falls_back_to_stop:
  "tuner_drivetrain self = None \<Longrightarrow> autonomous_factory self = None \<Longrightarrow>
   \<exists>command. get_autonomous_command self = ([Report_warning no_source_warning], Inr command) \<and>
     run_command command = stop self"
  by (simp add: get_autonomous_command_def from_override_def from_factory_def)

theorem get_autonomous_command_falls_back_to_stop_witness:
  "tuner_drivetrain bench_drive = None \<and> autonomous_factory bench_drive = None \<and>
   (\<exists>command. get_autonomous_command bench_drive =
       ([Report_warning no_source_warning], Inr command) \<and>
     run_command command =
       [Set_control \<lparr>device_id = 1, canbus = ''rio''\<rparr> 0,
        Set_control \<lparr>device_id = 3, canbus = ''rio''\<rparr> 0,
        Set_control \<lparr>device_id = 5, canbus = ''rio''\<rparr> 0,
        Set_control \<lparr>device_id = 7, canbus = ''rio''\<rparr> 0,
        Set_control \<lparr>device_id = 2, canbus = ''rio''\<rparr> 0,
        Set_control \<lparr>device_id = 4, canbus = ''rio''\<rparr> 0,
        Set_control \<lparr>device_id = 6, canbus = ''rio''\<rparr> 0,
        Set_control \<lparr>device_id = 8, canbus = ''rio''\<rparr> 0])"
proof -
  have h1: "tuner_drivetrain bench_drive = None" and h2: "autonomous_factory bench_drive = None"
    by (simp_all add: bench_drive_def)
  have st: "stop bench_drive =
       [Set_control \<lparr>device_id = 1, canbus = ''rio''\<rparr> 0,
        Set_control \<lparr>device_id = 3, canbus = ''rio''\<rparr> 0,
        Set_control \<lparr>device_id = 5, canbus = ''rio''\<rparr> 0,
        Set_control \<lparr>device_id = 7, canbus = ''rio''\<rparr> 0,
        Set_control \<lparr>device_id = 2, canbus = ''rio''\<rparr> 0,
        Set_control \<lparr>device_id = 4, canbus = ''rio''\<rparr> 0,
        Set_control \<lparr>device_id = 6, canbus = ''rio''\<rparr> 0,
        Set_control \<lparr>device_id = 8, canbus = ''rio''\<rparr> 0]"
    by (simp add: stop_def bench_drive_def)
  from get_autonomous_command_falls_back_to_stop [OF h1 h2] h1 h2 st show ?thesis by simp
qed

text \<open>
  Claim C6. When importing phoenix6 raises \<^verbatim>\<open>ModuleNotFoundError\<close>, the module globals
  \<^verbatim>\<open>TalonFX\<close> and \<^verbatim>\<open>DutyCycleOut\<close> are \<^verbatim>\<open>None\<close>, and constructing \<open>Drive\<close> raises
  \<^verbatim>\<open>RuntimeError\<close> with no effect before it: no motor handle is created, no module is
  probed.
\<close>

theorem Drive_init_fails_without_phoenix:
  "\<exists>G. import_phoenix6 (Some (ModuleNotFoundError msg)) = Inr G \<and>
     TalonFX G = None \<and> DutyCycleOut G = None \<and>
     Drive_init G K import_module sched =
       ([], Inl (RuntimeError
          ''Phoenix 6 is required for swerve bring-up. Install project dependencies first.''))"
  by (simp add: import_phoenix6_def Drive_init_def)

text \<open>
  Claim C7. When an override with a callable \<open>drive\<close> is present and the call raises,
  \<open>drive\<close> catches the exception exactly when it is a \<^verbatim>\<open>TypeError\<close>: it then runs the
  built-in mix (the same commands as with no override), reports nothing and returns
  normally. Any other exception is raised to the caller, and no motor is commanded.
\<close>

theorem drive_swallows_only_TypeError:
  "tuner_drivetrain self = Some tuner \<Longrightarrow> tuner_drive tuner = Some tuner_drive_fn \<Longrightarrow>
   tuner_drive_fn x_displacement y_displacement rotation field_oriented = Some exc \<Longrightarrow>
   (is_TypeError exc \<longrightarrow>
      drive K self x_displacement y_displacement rotation field_oriented =
        (Tuner_drive_called x_displacement y_displacement rotation field_oriented #
         bring_up_mix K self x_displacement y_displacement rotation, Inr ()) \<and>
      bring_up_mix K self x_displacement y_displacement rotation =
        fst (drive K (self\<lparr>tuner_drivetrain := None\<rparr>)
               x_displacement y_displacement rotation field_oriented)) \<and>
   (\<not> is_TypeError exc \<longrightarrow>
      drive K self x_displacement y_displacement rotation field_oriented =
        ([Tuner_drive_called x_displacement y_displacement rotation field_oriented], Inl exc))"
  by (simp add: drive_def bring_up_mix_def)

theorem drive_swallows_only_TypeError_witness:
  "drive bench_constants (raising_override (TypeError ''drive() takes 3 positional arguments''))
       (Finite 1) (Finite 0.05) (Finite (- 0.4)) True =
     ([Tuner_drive_called (Finite 1) (Finite 0.05) (Finite (- 0.4)) True,
       Set_control \<lparr>device_id = 1, canbus = ''rio''\<rparr> (Finite 0.3),
       Set_control \<lparr>device_id = 3, canbus = ''rio''\<rparr> (Finite 0.7),
       Set_control \<lparr>device_id = 5, canbus = ''rio''\<rparr> (Finite 0.3),
       Set_control \<lparr>device_id = 7, canbus = ''rio''\<rparr> (Finite 0.7),
       Set_control \<lparr>device_id = 2, canbus = ''rio''\<rparr> (Finite (- 0.2)),
       Set_control \<lparr>device_id = 4, canbus = ''rio''\<rparr> (Finite (- 0.2)),
       Set_control \<lparr>device_id = 6, canbus = ''rio''\<rparr> (Finite (- 0.2)),
       Set_control \<lparr>device_id = 8, canbus = ''rio''\<rparr> (Finite (- 0.2))], Inr ()) \<and>
   drive bench_constants (raising_override (OtherException ''boom''))
       (Finite 1) (Finite 0.05) (Finite (- 0.4)) True =
     ([Tuner_drive_called (Finite 1) (Finite 0.05) (Finite (- 0.4)) True],
      Inl (OtherException ''boom''))"
proof -
  let ?ty = "TypeError ''drive() takes 3 positional arguments''"
  let ?ot = "OtherException ''boom''"
  have t1: "tuner_drivetrain (raising_override ?ty) = Some (raising_tuner ?ty)"
    and t2: "tuner_drivetrain (raising_override ?ot) = Some (raising_tuner ?ot)"
    by (simp_all add: raising_override_def)
  have d1: "tuner_drive (raising_tuner ?ty) = Some (always_raises ?ty)"
    and d2: "tuner_drive (raising_tuner ?ot) = Some (always_raises ?ot)"
    by (simp_all add: raising_tuner_def)
  have r1: "always_raises ?ty (Finite 1) (Finite 0.05) (Finite (- 0.4)) True = Some ?ty"
    and r2: "always_raises ?ot (Finite 1) (Finite 0.05) (Finite (- 0.4)) True = Some ?ot"
    by (simp_all add: always_raises_def)
  have ty: "is_TypeError ?ty" and ot: "\<not> is_TypeError ?ot"
    by simp_all
  have mix: "bring_up_mix bench_constants
        (raising_override (TypeError ''drive() takes 3 positional arguments''))
        (Finite 1) (Finite 0.05) (Finite (- 0.4)) =
     [Set_control \<lparr>device_id = 1, canbus = ''rio''\<rparr> (Finite 0.3),
       Set_control \<lparr>device_id = 3, canbus = ''rio''\<rparr> (Finite 0.7),
       Set_control \<lparr>device_id = 5, canbus = ''rio''\<rparr> (Finite 0.3),
       Set_control \<lparr>device_id = 7, canbus = ''rio''\<rparr> (Finite 0.7),
       Set_control \<lparr>device_id = 2, canbus = ''rio''\<rparr> (Finite (- 0.2)),
       Set_control \<lparr>device_id = 4, canbus = ''rio''\<rparr> (Finite (- 0.2)),
       Set_control \<lparr>device_id = 6, canbus = ''rio''\<rparr> (Finite (- 0.2)),
       Set_control \<lparr>device_id = 8, canbus = ''rio''\<rparr> (Finite (- 0.2))]"
    by (simp add: bring_up_mix_def Let_def raising_override_def bench_drive_def
        bench_constants_def apply_deadband_def clamp_def py_min_def py_max_def
        zero_pyfloat_def one_pyfloat_def minus_pyfloat_def)
  from drive_swallows_only_TypeError [where K = bench_constants
      and self = "raising_override ?ty" and tuner = "raising_tuner ?ty"
      and tuner_drive_fn = "always_raises ?ty" and exc = ?ty
      and x_displacement = "Finite 1" and y_displacement = "Finite 0.05"
      and rotation = "Finite (- 0.4)" and field_oriented = True, OF t1 d1 r1] ty
  have 1: "drive bench_constants (raising_override ?ty)
        (Finite 1) (Finite 0.05) (Finite (- 0.4)) True =
      (Tuner_drive_called (Finite 1) (Finite 0.05) (Finite (- 0.4)) True #
       bring_up_mix bench_constants (raising_override ?ty)
        (Finite 1) (Finite 0.05) (Finite (- 0.4)), Inr ())"
    by (rule conjunct1 [OF mp [OF conjunct1]])
  from drive_swallows_only_TypeError [where K = bench_constants
      and self = "raising_override ?ot" and tuner = "raising_tuner ?ot"
      and tuner_drive_fn = "always_raises ?ot" and exc = ?ot
      and x_displacement = "Finite 1" and y_displacement = "Finite 0.05"
      and rotation = "Finite (- 0.4)" and field_oriented = True, OF t2 d2 r2] ot
  have 2: "drive bench_constants (raising_override ?ot)
       (Finite 1) (Finite 0.05) (Finite (- 0.4)) True =
     ([Tuner_drive_called (Finite 1) (Finite 0.05) (Finite (- 0.4)) True], Inl ?ot)"
    by (rule mp [OF conjunct2])
  show ?thesis
    by (rule conjI) (simp only: 1 mix, rule 2)
qed

text \<open>
  Claim C8, as amended. During construction the discovery of the optional override
  reports no warning when the optional modules or classes are absent, and absence is
  not fatal: construction succeeds with no override and no factory, \<open>drive\<close> then runs
  the built-in mix, and \<open>get_autonomous_command\<close> reports the one warning and returns
  the stop command. A warning during construction comes only from a candidate
  drivetrain class that was found and whose construction raised an \<^verbatim>\<open>Exception\<close>,
  and the discovery then returns \<^verbatim>\<open>None\<close> instead of raising; such a candidate, when
  the candidates before it are absent, does produce the warning.
\<close>

theorem discovery_warns_only_on_failed_construction:
  "(TalonFX G \<noteq> None \<and> DutyCycleOut G \<noteq> None \<and> optional_classes_absent import_module \<longrightarrow>
      (\<exists>evs self. Drive_init G K import_module sched = (evs, Inr self) \<and>
         (\<forall>w. Report_warning w \<notin> set evs) \<and>
         tuner_drivetrain self = None \<and> autonomous_factory self = None \<and>
         drive K self x_displacement y_displacement rotation field_oriented =
           (bring_up_mix K self x_displacement y_displacement rotation, Inr ()) \<and>
         (\<exists>command. get_autonomous_command self =
              ([Report_warning no_source_warning], Inr command) \<and>
            run_command command = stop self))) \<and>
   (Report_warning w \<in> set (fst (Drive_init G K import_module sched)) \<longrightarrow>
      snd (try_create_tuner_drivetrain import_module) = Inr None \<and>
      list_ex (construction_failed import_module w) tuner_drivetrain_candidates) \<and>
   (tuner_drivetrain_candidates = pre @ (mname, cname) # rest \<and>
    list_all (drivetrain_class_absent import_module) pre \<and>
    construction_failed import_module w (mname, cname) \<longrightarrow>
      try_create_tuner_drivetrain import_module =
        ([Tuner_constructed mname cname, Report_warning w], Inr None))"
proof (intro conjI impI)
  assume a: "TalonFX G \<noteq> None \<and> DutyCycleOut G \<noteq> None \<and> optional_classes_absent import_module"
  let ?blank = "\<lparr>scheduler = sched, tuner_drivetrain = None, autonomous_factory = None,
                  drive_motors = [], steer_motors = []\<rparr>"
  let ?evs = "fst (init_hardware K (MODULES K) ?blank)"
  let ?self = "snd (init_hardware K (MODULES K) ?blank)"
  from a have D: "Drive_init G K import_module sched = (?evs, Inr ?self)"
    by (intro Drive_init_absent) simp_all
  have t: "tuner_drivetrain ?self = None" and f: "autonomous_factory ?self = None"
    using init_hardware_fields [of K "MODULES K" ?blank] by simp_all
  have w: "\<forall>w. Report_warning w \<notin> set ?evs"
    by (simp add: init_hardware_events)
  have d: "drive K ?self x_displacement y_displacement rotation field_oriented =
           (bring_up_mix K ?self x_displacement y_displacement rotation, Inr ())"
    by (simp add: drive_def t)
  have g: "\<exists>command. get_autonomous_command ?self =
              ([Report_warning no_source_warning], Inr command) \<and>
            run_command command = stop ?self"
    by (simp add: get_autonomous_command_def from_override_def from_factory_def t f)
  from D w t f d g
  show "\<exists>evs self. Drive_init G K import_module sched = (evs, Inr self) \<and>
         (\<forall>w. Report_warning w \<notin> set evs) \<and>
         tuner_drivetrain self = None \<and> autonomous_factory self = None \<and>
         drive K self x_displacement y_displacement rotation field_oriented =
           (bring_up_mix K self x_displacement y_displacement rotation, Inr ()) \<and>
         (\<exists>command. get_autonomous_command self =
              ([Report_warning no_source_warning], Inr command) \<and>
            run_command command = stop self)"
    by blast
next
  assume "Report_warning w \<in> set (fst (Drive_init G K import_module sched))"
  then have "Report_warning w \<in> set (fst (try_create_tuner_drivetrain import_module))"
    by (rule Drive_init_warning)
  then have "Report_warning w \<in>
      set (fst (try_drivetrain_candidates import_module tuner_drivetrain_candidates))"
    unfolding try_create_tuner_drivetrain_def .
  from drivetrain_candidates_warning [OF this]
  show "snd (try_create_tuner_drivetrain import_module) = Inr None"
    and "list_ex (construction_failed import_module w) tuner_drivetrain_candidates"
    unfolding try_create_tuner_drivetrain_def by simp_all
next
  assume a: "tuner_drivetrain_candidates = pre @ (mname, cname) # rest \<and>
    list_all (drivetrain_class_absent import_module) pre \<and>
    construction_failed import_module w (mname, cname)"
  then have "try_drivetrain_candidates import_module (pre @ (mname, cname) # rest) =
       ([Tuner_constructed mname cname, Report_warning w], Inr None)"
    by (intro failing_drivetrain_candidate) simp_all
  with a show "try_create_tuner_drivetrain import_module =
        ([Tuner_constructed mname cname, Report_warning w], Inr None)"
    unfolding try_create_tuner_drivetrain_def by simp
qed

theorem discovery_warns_only_on_failed_construction_witness:
  "optional_classes_absent absent_importer \<and>
   (\<exists>evs self. Drive_init phoenix_bound bench_constants absent_importer None = (evs, Inr self) \<and>
      (\<forall>w. Report_warning w \<notin> set evs) \<and>
      tuner_drivetrain self = None \<and> autonomous_factory self = None \<and>
      drive bench_constants self (Finite 1) (Finite 0.05) (Finite (- 0.4)) False =
        (bring_up_mix bench_constants self (Finite 1) (Finite 0.05) (Finite (- 0.4)), Inr ()) \<and>
      (\<exists>command. get_autonomous_command self =
           ([Report_warning no_source_warning], Inr command) \<and>
         run_command command = stop self)) \<and>
   construction_failed failing_class_importer
     (construct_failure_warning ''generated.command_swerve_drivetrain''
        ''CommandSwerveDrivetrain'' (OtherException ''no CAN bus''))
     (''generated.command_swerve_drivetrain'', ''CommandSwerveDrivetrain'') \<and>
   try_create_tuner_drivetrain failing_class_importer =
     ([Tuner_constructed ''generated.command_swerve_drivetrain'' ''CommandSwerveDrivetrain'',
       Report_warning (construct_failure_warning ''generated.command_swerve_drivetrain''
        ''CommandSwerveDrivetrain'' (OtherException ''no CAN bus''))], Inr None) \<and>
   Report_warning (construct_failure_warning ''generated.command_swerve_drivetrain''
        ''CommandSwerveDrivetrain'' (OtherException ''no CAN bus'')) \<in>
     set (fst (Drive_init phoenix_bound bench_constants failing_class_importer None)) \<and>
   snd (try_create_tuner_drivetrain failing_class_importer) = Inr None \<and>
   list_ex (construction_failed failing_class_importer
       (construct_failure_warning ''generated.command_swerve_drivetrain''
          ''CommandSwerveDrivetrain'' (OtherException ''no CAN bus'')))
     tuner_drivetrain_candidates"
proof -
  let ?W = "construct_failure_warning ''generated.command_swerve_drivetrain''
        ''CommandSwerveDrivetrain'' (OtherException ''no CAN bus'')"
  let ?rest = "[(''subsystems.command_swerve_drivetrain'', ''CommandSwerveDrivetrain''),
      (''command_swerve_drivetrain'', ''CommandSwerveDrivetrain'')]"
  note absent = discovery_warns_only_on_failed_construction
    [where G = phoenix_bound and K = bench_constants and import_module = absent_importer
       and sched = None and x_displacement = "Finite 1" and y_displacement = "Finite 0.05"
       and rotation = "Finite (- 0.4)" and field_oriented = False
       and w = ?W and pre = "[]" and rest = ?rest
       and mname = "''generated.command_swerve_drivetrain''"
       and cname = "''CommandSwerveDrivetrain''"]
  note failing = discovery_warns_only_on_failed_construction
    [where G = phoenix_bound and K = bench_constants and import_module = failing_class_importer
       and sched = None and x_displacement = "Finite 1" and y_displacement = "Finite 0.05"
       and rotation = "Finite (- 0.4)" and field_oriented = False
       and w = ?W and pre = "[]" and rest = ?rest
       and mname = "''generated.command_swerve_drivetrain''"
       and cname = "''CommandSwerveDrivetrain''"]
  have h1: "TalonFX phoenix_bound \<noteq> None \<and> DutyCycleOut phoenix_bound \<noteq> None \<and>
      optional_classes_absent absent_importer"
    by (simp add: phoenix_bound_classes absent_importer_absent)
  have h3: "tuner_drivetrain_candidates =
      [] @ (''generated.command_swerve_drivetrain'', ''CommandSwerveDrivetrain'') # ?rest \<and>
    list_all (drivetrain_class_absent failing_class_importer) [] \<and>
    construction_failed failing_class_importer ?W
      (''generated.command_swerve_drivetrain'', ''CommandSwerveDrivetrain'')"
    by (simp add: tuner_drivetrain_candidates_def failing_class_construction_failed)
  note a = absent [THEN conjunct1, THEN mp, OF h1]
  note c = failing [THEN conjunct2, THEN conjunct2, THEN mp, OF h3]
  have h2: "Report_warning ?W \<in>
     set (fst (Drive_init phoenix_bound bench_constants failing_class_importer None))"
    by (simp add: Drive_init_def c failing_class_no_factory Let_def split_beta
        phoenix_bound_def)
  note b = failing [THEN conjunct2, THEN conjunct1, THEN mp, OF h2]
  note f1 = h1 [THEN conjunct2, THEN conjunct2]
  note f3 = h3 [THEN conjunct2, THEN conjunct2]
  note b1 = b [THEN conjunct1]
  note b2 = b [THEN conjunct2]
  show ?thesis
    by (intro conjI) (fact f1, fact a, fact f3, fact c, fact h2, fact b1, fact b2)
qed

text \<open>
  Claim C8 as stated does not hold. With none of the optional modules installed (every
  import raises \<^verbatim>\<open>ModuleNotFoundError\<close>) construction creates the eight motor
  handles, ends with no override, and reports no warning at all. With an optional
  module that raises another exception while it is imported (here a syntax error),
  the exception leaves \<open>Drive_init\<close>: the failure of the discovery is fatal.
\<close>

theorem construction_without_override_is_silent:
  "Drive_init phoenix_bound bench_constants absent_importer None =
     ([TalonFX_created 1 ''rio'', TalonFX_created 2 ''rio'', TalonFX_created 3 ''rio'',
       TalonFX_created 4 ''rio'', TalonFX_created 5 ''rio'', TalonFX_created 6 ''rio'',
       TalonFX_created 7 ''rio'', TalonFX_created 8 ''rio''], Inr bench_drive) \<and>
   tuner_drivetrain bench_drive = None \<and>
   (\<forall>w. Report_warning w \<notin>
      set (fst (Drive_init phoenix_bound bench_constants absent_importer None))) \<and>
   Drive_init phoenix_bound bench_constants broken_importer None =
     ([], Inl (OtherException ''invalid syntax''))"
  by (simp add: bench_Drive_init broken_Drive_init) (simp add: bench_drive_def)

text \<open>
  Claim C9. With no override, \<open>drive\<close> with \<open>field_oriented = True\<close> has the same
  effects and the same result as with \<open>field_oriented = False\<close>.
\<close>

theorem field_oriented_ignored_by_mixer:
  "tuner_drivetrain self = None \<Longrightarrow>
   drive K self x_displacement y_displacement rotation True =
   drive K self x_displacement y_displacement rotation False"
  by (simp add: drive_def)

theorem field_oriented_ignored_by_mixer_witness:
  "tuner_drivetrain bench_drive = None \<and>
   drive bench_constants bench_drive (Finite 1) (Finite 0.05) (Finite (- 0.4)) True =
   drive bench_constants bench_drive (Finite 1) (Finite 0.05) (Finite (- 0.4)) False"
proof -
  have h: "tuner_drivetrain bench_drive = None"
    by (simp add: bench_drive_def)
  from field_oriented_ignored_by_mixer [OF h] h show ?thesis by simp
qed

text \<open>
  Claim C10. The deadband comparison is strict: a value whose absolute value is greater
  than or equal to the threshold (in the order of floats), the threshold itself
  included, is returned unchanged.
\<close>

theorem apply_deadband_keeps_at_threshold:
  "deadband \<le> \<bar>v\<bar> \<Longrightarrow> apply_deadband v (deadband::pyfloat) = v"
  by (simp add: apply_deadband_def pyfloat_le_not_less)

theorem apply_deadband_keeps_at_threshold_witness:
  "Finite 0.1 \<le> \<bar>Finite (- 0.1)\<bar> \<and> apply_deadband (Finite (- 0.1)) (Finite 0.1) = Finite (- 0.1)"
proof -
  have h: "Finite 0.1 \<le> \<bar>Finite (- 0.1)\<bar>" by simp
  show ?thesis using h apply_deadband_keeps_at_threshold [OF h] by simp
qed

end
